theory Spec2Isabelle
  imports Main
begin

section \<open>MouseMovester: the data model\<close>

text \<open>
  The class \<open>RandomMouseMover\<close> of \<open>MouseMovester.py\<close> has five attributes: the flag
  \<open>running\<close>, the background thread handle \<open>thread\<close> (\<open>None\<close> before the first
  \<open>start()\<close>), the two dimensions of the primary monitor and the list of avoidance
  regions. A region is the Python tuple \<open>(left, top, right, bottom)\<close>; Python integers are
  unbounded, so coordinates are \<open>int\<close>. A thread object is identified by a number.
\<close>

type_synonym region = "int \<times> int \<times> int \<times> int"

record mover =
  running :: bool
  thread :: "nat option"
  screen_width :: int
  screen_height :: int
  avoid_regions :: "region list"

text \<open>
  The exceptions the program can meet. \<open>FailSafeException\<close> is pyautogui's, raised by
  \<open>moveTo\<close> and \<open>click\<close> when the pointer sits in the top-left corner; \<open>ValueError\<close>
  is what \<open>random.randint\<close> raises on an empty range; \<open>RuntimeError\<close> is what
  \<open>Thread.join\<close> raises when a thread joins itself; \<open>OtherException\<close> stands for any
  other class derived from \<open>Exception\<close> (an \<open>OSError\<close> of the pointer driver, say).
\<close>

datatype exn =
    FailSafeException
  | KeyboardInterrupt
  | ValueError
  | RuntimeError
  | OtherException string

text \<open>
  \<open>isinstance(e, Exception)\<close>, which decides whether a clause \<open>except Exception\<close>
  catches \<open>e\<close>. In Python \<open>KeyboardInterrupt\<close> derives from \<open>BaseException\<close> only;
  in pyautogui \<open>FailSafeException\<close> derives from \<open>PyAutoGUIException\<close>, which derives
  from \<open>Exception\<close>.
\<close>

fun is_Exception :: "exn \<Rightarrow> bool" where
  "is_Exception KeyboardInterrupt = False"
| "is_Exception _ = True"

text \<open>
  What the program does to the outside world, in order: console lines, calls of
  \<open>random.randint\<close> that returned (\<open>RandInt a b r\<close>: the call \<open>randint(a, b)\<close>
  gave \<open>r\<close>), pointer moves and clicks that returned, sleeps of a tenth of a second, and
  thread operations. \<open>Join t s ended\<close> is \<open>t.join(timeout=s)\<close>, and \<open>ended\<close> tells
  whether thread \<open>t\<close> had finished when the call came back; \<open>join\<close> returns \<open>None\<close>
  either way.
\<close>

datatype event =
    Log_size int int
  | Log_regions "region list"
  | Log_started
  | Log_skip int int
  | Log_moved int int
  | Log_error exn
  | Log_emergency
  | Log_keyboard
  | Log_unexpected exn
  | Log_already_running
  | Log_stopped
  | RandInt int int int
  | MoveTo int int
  | Click
  | Sleep
  | Spawn nat
  | Join nat nat bool

section \<open>Avoidance regions and the point classifier\<close>

text \<open>
  \<open>_define_avoid_regions\<close> appends three tuples to \<open>self.avoid_regions\<close>, in this order,
  and prints the list.
\<close>

definition define_avoid_regions :: "mover \<Rightarrow> mover \<times> event list" where
  "define_avoid_regions m =
     (let button_width = 50;
          top_bar_height = 30;
          m1 = m\<lparr>avoid_regions := avoid_regions m @
                 [(screen_width m - (3 * button_width), 0, screen_width m, top_bar_height)]\<rparr>;
          taskbar_height = 40;
          start_menu_width = 100;
          m2 = m1\<lparr>avoid_regions := avoid_regions m1 @
                 [(0, screen_height m1 - taskbar_height, start_menu_width, screen_height m1)]\<rparr>;
          m3 = m2\<lparr>avoid_regions := avoid_regions m2 @
                 [(0, screen_height m2 - taskbar_height, screen_width m2, screen_height m2)]\<rparr>
      in (m3, [Log_regions (avoid_regions m3)]))"

text \<open>
  \<open>__init__\<close>, given the pair that \<open>get_primary_monitor_size\<close> returned: the mover is
  stopped, has no thread, and its region list starts empty before the builder runs.
\<close>

definition RandomMouseMover_init :: "int \<Rightarrow> int \<Rightarrow> mover \<times> event list" where
  "RandomMouseMover_init w h =
     (let m = \<lparr>running = False, thread = None, screen_width = w, screen_height = h,
                avoid_regions = []\<rparr>;
          (m', evs) = define_avoid_regions m
      in (m', Log_size w h # evs))"

text \<open>
  \<open>is_position_in_avoid_region\<close>: the \<open>for\<close> loop over the regions, returning at the
  first region that contains the point. The chained comparison \<open>left <= x <= right\<close> is
  a conjunction.
\<close>

fun in_any_region :: "region list \<Rightarrow> int \<Rightarrow> int \<Rightarrow> bool" where
  "in_any_region [] x y = False"
| "in_any_region ((r_left, r_top, r_right, r_bottom) # regions) x y =
     (if r_left \<le> x \<and> x \<le> r_right \<and> r_top \<le> y \<and> y \<le> r_bottom then True
      else in_any_region regions x y)"

definition is_position_in_avoid_region :: "mover \<Rightarrow> int \<Rightarrow> int \<Rightarrow> bool" where
  "is_position_in_avoid_region m x y = in_any_region (avoid_regions m) x y"

text \<open>A list without its element at index 1 (the second region).\<close>

definition without_second :: "'a list \<Rightarrow> 'a list" where
  "without_second xs = take 1 xs @ drop 2 xs"

section \<open>The candidate generator\<close>

text \<open>
  \<open>random.randint(a, b)\<close> raises \<open>ValueError\<close> when \<open>b < a\<close> (the range is empty) and
  otherwise returns \<open>a\<close> plus a number below the width \<open>b - a + 1\<close> of the range. The
  number comes from the generator's state; here it is the raw draw \<open>k\<close> reduced modulo
  the width, so that every \<open>k\<close> gives a value of the range and every value of the range
  comes from some \<open>k\<close>.
\<close>

definition randint :: "int \<Rightarrow> int \<Rightarrow> nat \<Rightarrow> exn + int" where
  "randint a b k =
     (if b < a then Inl ValueError else Inr (a + int (k mod nat (b - a + 1))))"

text \<open>
  \<open>get_random_position\<close>: two calls of \<open>randint\<close>, the second only when the first
  returned. Nothing in it compares the margin with the screen dimensions.
\<close>

definition get_random_position :: "mover \<Rightarrow> nat \<Rightarrow> nat \<Rightarrow> (exn + int \<times> int) \<times> event list" where
  "get_random_position m kx ky =
     (let margin = 50 in
      case randint margin (screen_width m - margin) kx of
        Inl e \<Rightarrow> (Inl e, [])
      | Inr x \<Rightarrow>
          (case randint margin (screen_height m - margin) ky of
             Inl e \<Rightarrow> (Inl e, [RandInt margin (screen_width m - margin) x])
           | Inr y \<Rightarrow>
               (Inr (x, y),
                [RandInt margin (screen_width m - margin) x,
                 RandInt margin (screen_height m - margin) y])))"

section \<open>One cycle\<close>

text \<open>
  What the environment answers during one cycle of the loop: the two raw random draws,
  whether \<open>pyautogui.moveTo\<close> and \<open>pyautogui.click\<close> raise (\<open>None\<close>: the call returns),
  whether another thread clears the flag \<open>running\<close> during the five-second wait
  (\<open>Some i\<close>: after \<open>i\<close> sleeps, at the latest after all fifty), what
  \<open>self.thread.is_alive()\<close> answers for a thread other than the calling one, and
  whether that thread finishes within the timeout of a \<open>join\<close>.
\<close>

record cycle =
  draw_x :: nat
  draw_y :: nat
  move_outcome :: "exn option"
  click_outcome :: "exn option"
  stop_request :: "nat option"
  thread_alive :: bool
  join_ended :: bool

text \<open>
  The clause \<open>except Exception as e\<close> of \<open>move_mouse_and_click\<close>: an exception derived
  from \<open>Exception\<close> is printed and the method returns normally; any other one leaves the
  method. \<open>evs\<close> are the events that happened before the exception.
\<close>

definition except_Exception :: "exn \<Rightarrow> event list \<Rightarrow> exn option \<times> event list" where
  "except_Exception e evs =
     (if is_Exception e then (None, evs @ [Log_error e]) else (Some e, evs))"

text \<open>
  \<open>move_mouse_and_click\<close>. The whole body is inside the \<open>try\<close>. The result is the
  exception that leaves the method, if any, and the events of the call.
\<close>

definition move_mouse_and_click :: "mover \<Rightarrow> cycle \<Rightarrow> exn option \<times> event list" where
  "move_mouse_and_click m c =
     (case get_random_position m (draw_x c) (draw_y c) of
        (Inl e, evs) \<Rightarrow> except_Exception e evs
      | (Inr (x, y), evs) \<Rightarrow>
          if is_position_in_avoid_region m x y then (None, evs @ [Log_skip x y])
          else
            (case move_outcome c of
               Some e \<Rightarrow> except_Exception e evs
             | None \<Rightarrow>
                 (case click_outcome c of
                    Some e \<Rightarrow> except_Exception e (evs @ [MoveTo x y])
                  | None \<Rightarrow> (None, evs @ [MoveTo x y, Click, Log_moved x y]))))"

section \<open>Start, stop and the loop\<close>

text \<open>
  \<open>start\<close>: \<open>tid\<close> names the thread object that \<open>threading.Thread(...)\<close> would create.
\<close>

definition start :: "mover \<Rightarrow> nat \<Rightarrow> mover \<times> event list" where
  "start m tid =
     (if running m then (m, [Log_already_running])
      else (m\<lparr>running := True, thread := Some tid\<rparr>, [Spawn tid]))"

text \<open>
  \<open>stop\<close>, called by thread \<open>caller\<close>. The flag is cleared first. If there is a thread
  object and it is alive, it is joined with a timeout of one second; the thread that
  runs the call is alive, and \<open>join\<close> on it raises \<open>RuntimeError\<close> (cannot join current
  thread) before the last line is printed. For another thread \<open>alive\<close> is the answer of
  \<open>is_alive()\<close> and \<open>ended\<close> tells whether it finished within the timeout.
\<close>

definition stop :: "mover \<Rightarrow> nat \<Rightarrow> bool \<Rightarrow> bool \<Rightarrow> exn option \<times> mover \<times> event list" where
  "stop m caller alive ended =
     (let m' = m\<lparr>running := False\<rparr> in
      case thread m' of
        None \<Rightarrow> (None, m', [Log_stopped])
      | Some t \<Rightarrow>
          if t = caller then (Some RuntimeError, m', [])
          else if alive then (None, m', [Join t 1 ended, Log_stopped])
          else (None, m', [Log_stopped]))"

text \<open>
  How the loop ends on a finite list of cycles: the method returned, an exception left
  it, or the list ran out while the flag was still set (the loop would go on).
\<close>

datatype loop_exit = Returned | Uncaught exn | Still_running

definition prepend :: "event list \<Rightarrow> loop_exit \<times> mover \<times> event list \<Rightarrow> loop_exit \<times> mover \<times> event list" where
  "prepend evs res = (fst res, fst (snd res), evs @ snd (snd res))"

text \<open>
  The three \<open>except\<close> clauses of the loop, in the source's order; each prints its line,
  calls \<open>self.stop()\<close> and breaks. An exception raised by \<open>stop\<close> inside a handler leaves
  the loop.
\<close>

fun handler_line :: "exn \<Rightarrow> event" where
  "handler_line FailSafeException = Log_emergency"
| "handler_line KeyboardInterrupt = Log_keyboard"
| "handler_line e = Log_unexpected e"

definition loop_except :: "mover \<Rightarrow> nat \<Rightarrow> cycle \<Rightarrow> exn \<Rightarrow> event list \<Rightarrow> loop_exit \<times> mover \<times> event list" where
  "loop_except m me c e evs =
     (case stop m me (thread_alive c) (join_ended c) of
        (Some e', m', evs') \<Rightarrow> (Uncaught e', m', evs @ [handler_line e] @ evs')
      | (None, m', evs') \<Rightarrow> (Returned, m', evs @ [handler_line e] @ evs'))"

text \<open>
  The \<open>while self.running\<close> loop of \<open>mouse_mover_loop\<close>, run by thread \<open>me\<close>, one list
  element per cycle. After a cycle that returned, the inner \<open>for\<close> loop polls the flag
  before each of fifty sleeps.
\<close>

fun mouse_mover_while :: "mover \<Rightarrow> nat \<Rightarrow> cycle list \<Rightarrow> loop_exit \<times> mover \<times> event list" where
  "mouse_mover_while m me [] = (if running m then Still_running else Returned, m, [])"
| "mouse_mover_while m me (c # cs) =
     (if \<not> running m then (Returned, m, [])
      else
        (case move_mouse_and_click m c of
           (Some e, evs) \<Rightarrow> loop_except m me c e evs
         | (None, evs) \<Rightarrow>
             (case stop_request c of
                Some i \<Rightarrow> (Returned, m\<lparr>running := False\<rparr>, evs @ replicate (min i 50) Sleep)
              | None \<Rightarrow> prepend (evs @ replicate 50 Sleep) (mouse_mover_while m me cs))))"

definition mouse_mover_loop :: "mover \<Rightarrow> nat \<Rightarrow> cycle list \<Rightarrow> loop_exit \<times> mover \<times> event list" where
  "mouse_mover_loop m me cs = prepend [Log_started] (mouse_mover_while m me cs)"

section \<open>Concrete inputs\<close>

text \<open>
  A 1920x1080 mover after \<open>start()\<close> with thread 1, and a cycle in which nothing raises
  and nobody asks to stop.
\<close>

definition started_mover :: mover where
  "started_mover = fst (start (fst (RandomMouseMover_init 1920 1080)) 1)"

definition quiet_cycle :: "nat \<Rightarrow> nat \<Rightarrow> cycle" where
  "quiet_cycle kx ky =
     \<lparr>draw_x = kx, draw_y = ky, move_outcome = None, click_outcome = None,
      stop_request = None, thread_alive = True, join_ended = True\<rparr>"

section \<open>Facts about the regions and the classifier\<close>

lemma init_fields:
  "screen_width (fst (RandomMouseMover_init w h)) = w"
  "screen_height (fst (RandomMouseMover_init w h)) = h"
  "running (fst (RandomMouseMover_init w h)) = False"
  "thread (fst (RandomMouseMover_init w h)) = None"
  by (simp_all add: RandomMouseMover_init_def define_avoid_regions_def)

lemma avoid_regions_init:
  "avoid_regions (fst (RandomMouseMover_init w h)) =
     [(w - 150, 0, w, 30), (0, h - 40, 100, h), (0, h - 40, w, h)]"
  by (simp add: RandomMouseMover_init_def define_avoid_regions_def Let_def)

lemma in_any_region_iff:
  "in_any_region rs x y =
     (\<exists>(l, t, r, b) \<in> set rs. l \<le> x \<and> x \<le> r \<and> t \<le> y \<and> y \<le> b)"
  by (induction rs x y rule: in_any_region.induct) auto

lemma started_mover_eq:
  "started_mover =
     \<lparr>running = True, thread = Some 1, screen_width = 1920, screen_height = 1080,
      avoid_regions = [(1770, 0, 1920, 30), (0, 1040, 100, 1080), (0, 1040, 1920, 1080)]\<rparr>"
  by (simp add: started_mover_def start_def RandomMouseMover_init_def define_avoid_regions_def)

text \<open>
  C4. The region builder is a function of the screen bounds alone: for every width \<open>w\<close>
  and height \<open>h\<close> the constructed mover holds exactly the three rectangles top-right,
  bottom-left, full taskbar, in that order; for 1920x1080 they are (1770, 0, 1920, 30),
  (0, 1040, 100, 1080) and (0, 1040, 1920, 1080).
\<close>

theorem C4_avoid_regions_fixed:
  "avoid_regions (fst (RandomMouseMover_init w h)) =
     [(w - 150, 0, w, 30), (0, h - 40, 100, h), (0, h - 40, w, h)]
   \<and> avoid_regions (fst (RandomMouseMover_init 1920 1080)) =
     [(1770, 0, 1920, 30), (0, 1040, 100, 1080), (0, 1040, 1920, 1080)]"
  by (simp add: avoid_regions_init)

text \<open>
  C5. The classifier answers true exactly when some region of the list contains the
  point, all four bounds inclusive; on the 1920x1080 regions the point (1800, 15) is
  avoided and (960, 540) is not.
\<close>

theorem C5_classifier_inclusive:
  "is_position_in_avoid_region m x y =
     (\<exists>(l, t, r, b) \<in> set (avoid_regions m). l \<le> x \<and> x \<le> r \<and> t \<le> y \<and> y \<le> b)
   \<and> is_position_in_avoid_region (fst (RandomMouseMover_init 1920 1080)) 1800 15
   \<and> \<not> is_position_in_avoid_region (fst (RandomMouseMover_init 1920 1080)) 960 540"
  by (simp add: is_position_in_avoid_region_def in_any_region_iff avoid_regions_init)

text \<open>
  C5 on the edges of the 1920x1080 regions: the corners (1770, 30) and (1920, 0) of the
  top-right rectangle and (0, 1040) and (1920, 1080) of the taskbar are inside; one
  pixel left of the left edge, or below the bottom edge, is outside.
\<close>

theorem C5_classifier_inclusive_witness:
  "is_position_in_avoid_region (fst (RandomMouseMover_init 1920 1080)) 1770 30
   \<and> is_position_in_avoid_region (fst (RandomMouseMover_init 1920 1080)) 1920 0
   \<and> is_position_in_avoid_region (fst (RandomMouseMover_init 1920 1080)) 0 1040
   \<and> is_position_in_avoid_region (fst (RandomMouseMover_init 1920 1080)) 1920 1080
   \<and> \<not> is_position_in_avoid_region (fst (RandomMouseMover_init 1920 1080)) 1769 30
   \<and> \<not> is_position_in_avoid_region (fst (RandomMouseMover_init 1920 1080)) 1770 31"
  using C5_classifier_inclusive [of "fst (RandomMouseMover_init 1920 1080)" 1770 30]
    C5_classifier_inclusive [of "fst (RandomMouseMover_init 1920 1080)" 1920 0]
    C5_classifier_inclusive [of "fst (RandomMouseMover_init 1920 1080)" 0 1040]
    C5_classifier_inclusive [of "fst (RandomMouseMover_init 1920 1080)" 1920 1080]
    C5_classifier_inclusive [of "fst (RandomMouseMover_init 1920 1080)" 1769 30]
    C5_classifier_inclusive [of "fst (RandomMouseMover_init 1920 1080)" 1770 31]
  by (simp add: avoid_regions_init)

text \<open>
  C10. When the width is at least 100, the bottom-left rectangle lies inside the
  taskbar rectangle, and the classifier gives the same answer for every point on the
  region list without its second element.
\<close>

theorem C10_second_region_redundant:
  assumes "100 \<le> w"
  shows "(in_any_region [avoid_regions (fst (RandomMouseMover_init w h)) ! 1] x y \<longrightarrow>
          in_any_region [avoid_regions (fst (RandomMouseMover_init w h)) ! 2] x y)
       \<and> is_position_in_avoid_region
           ((fst (RandomMouseMover_init w h))
              \<lparr>avoid_regions := without_second (avoid_regions (fst (RandomMouseMover_init w h)))\<rparr>) x y
         = is_position_in_avoid_region (fst (RandomMouseMover_init w h)) x y"
  using assms
  by (auto simp: is_position_in_avoid_region_def avoid_regions_init without_second_def)

text \<open>
  C10 at 1920x1080 and the point (60, 1050), which lies in the bottom-left rectangle:
  it is avoided with the two remaining regions as with all three.
\<close>

theorem C10_second_region_redundant_witness:
  "(100::int) \<le> 1920 \<and>
   is_position_in_avoid_region
     ((fst (RandomMouseMover_init 1920 1080))
        \<lparr>avoid_regions := [(1770, 0, 1920, 30), (0, 1040, 1920, 1080)]\<rparr>) 60 1050
   \<and> is_position_in_avoid_region (fst (RandomMouseMover_init 1920 1080)) 60 1050"
  using C10_second_region_redundant [of 1920 1080 60 1050]
  by (simp add: is_position_in_avoid_region_def avoid_regions_init without_second_def)

section \<open>Facts about the candidate generator\<close>

lemma randint_range: "a \<le> b \<Longrightarrow> \<exists>r. randint a b k = Inr r \<and> a \<le> r \<and> r \<le> b"
proof -
  assume ab: "a \<le> b"
  then have pos: "0 < b - a + 1" by simp
  have "int k mod (b - a + 1) < b - a + 1"
    using pos by (rule pos_mod_bound)
  with ab show ?thesis by (simp add: randint_def zmod_int)
qed

lemma randint_Inr: "randint a b k = Inr r \<Longrightarrow> a \<le> r \<and> r \<le> b"
proof -
  assume r: "randint a b k = Inr r"
  then have ab: "a \<le> b" by (auto simp: randint_def split: if_splits)
  from randint_range [OF ab, of k] r show ?thesis by simp
qed

text \<open>Every value of the range is the result for some raw draw.\<close>

lemma randint_onto: "a \<le> r \<Longrightarrow> r \<le> b \<Longrightarrow> randint a b (nat (r - a)) = Inr r"
  by (simp add: randint_def)

lemma get_random_position_bounds:
  "fst (get_random_position m kx ky) = Inr (x, y) \<Longrightarrow>
     50 \<le> x \<and> x \<le> screen_width m - 50 \<and> 50 \<le> y \<and> y \<le> screen_height m - 50"
  by (auto simp: get_random_position_def split: sum.splits dest: randint_Inr)

text \<open>
  On a mover built by the constructor no candidate is ever classified as avoided: the
  margin of 50 keeps \<open>y\<close> above the title-bar strip (bottom 30) and below the taskbar
  strips (top \<open>h - 40\<close>).
\<close>

lemma candidate_never_avoided:
  "fst (get_random_position (fst (RandomMouseMover_init w h)) kx ky) = Inr (x, y) \<Longrightarrow>
     \<not> is_position_in_avoid_region (fst (RandomMouseMover_init w h)) x y"
  by (drule get_random_position_bounds)
     (simp add: is_position_in_avoid_region_def avoid_regions_init init_fields)

text \<open>
  C1. When width and height both exceed 100, \<open>get_random_position\<close> returns a point
  \<open>(x, y)\<close>, whatever the random draws, with \<open>50 \<le> x \<le> width - 50\<close> and
  \<open>50 \<le> y \<le> height - 50\<close>.
\<close>

theorem C1_candidate_within_margins:
  assumes "100 < screen_width m" and "100 < screen_height m"
  shows "\<exists>x y. fst (get_random_position m kx ky) = Inr (x, y) \<and>
           50 \<le> x \<and> x \<le> screen_width m - 50 \<and> 50 \<le> y \<and> y \<le> screen_height m - 50"
proof -
  from assms(1) have "50 \<le> screen_width m - 50" by simp
  then obtain x where x: "randint 50 (screen_width m - 50) kx = Inr x"
      "50 \<le> x" "x \<le> screen_width m - 50"
    using randint_range by blast
  from assms(2) have "50 \<le> screen_height m - 50" by simp
  then obtain y where y: "randint 50 (screen_height m - 50) ky = Inr y"
      "50 \<le> y" "y \<le> screen_height m - 50"
    using randint_range by blast
  from x y show ?thesis by (simp add: get_random_position_def)
qed

text \<open>C1 at 1920x1080 with the raw draws 910 and 490: the point is (960, 540).\<close>

theorem C1_candidate_within_margins_witness:
  "100 < screen_width (fst (RandomMouseMover_init 1920 1080)) \<and>
   100 < screen_height (fst (RandomMouseMover_init 1920 1080)) \<and>
   fst (get_random_position (fst (RandomMouseMover_init 1920 1080)) 910 490) = Inr (960, 540)"
  using C1_candidate_within_margins [of "fst (RandomMouseMover_init 1920 1080)" 910 490]
  by (simp add: RandomMouseMover_init_def define_avoid_regions_def get_random_position_def
      randint_def)

text \<open>
  C9, as stated, fails at the boundary: with a dimension of exactly 100, where
  \<open>2 * margin \<ge> dimension\<close> holds, the call is \<open>randint(50, 50)\<close>, the range is not
  inverted, and the generator returns (50, 50).
\<close>

theorem C9_boundary_counterexample:
  "(100::int) \<le> 2 * 50 \<and>
   fst (get_random_position (fst (RandomMouseMover_init 100 100)) 7 3) = Inr (50, 50)"
  by (simp add: init_fields get_random_position_def randint_def)

text \<open>
  C9, amended. \<open>get_random_position\<close> raises \<open>ValueError\<close>, which nothing in it
  catches, exactly when the width or the height is below 100, that is when
  \<open>2 * margin > dimension\<close>.
\<close>

theorem C9_fails_iff_dimension_below_100:
  "(fst (get_random_position m kx ky) = Inl ValueError) =
     (screen_width m < 100 \<or> screen_height m < 100)"
  by (auto simp: get_random_position_def randint_def split: sum.splits)

text \<open>C9, amended, on a screen 99 wide: the generator raises.\<close>

theorem C9_fails_iff_dimension_below_100_witness:
  "fst (get_random_position (fst (RandomMouseMover_init 99 1080)) 7 3) = Inl ValueError"
  using C9_fails_iff_dimension_below_100 [of "fst (RandomMouseMover_init 99 1080)" 7 3]
  by (simp add: init_fields)

section \<open>Facts about a cycle\<close>

text \<open>
  C6. When the candidate of a cycle is classified as avoided, \<open>move_mouse_and_click\<close>
  returns normally after the two \<open>randint\<close> calls of the one candidate and the line
  that reports the skip: no move, no click, no further draw.
\<close>

theorem C6_avoided_cycle_skipped:
  assumes "fst (get_random_position m (draw_x c) (draw_y c)) = Inr (x, y)"
    and "is_position_in_avoid_region m x y"
  shows "move_mouse_and_click m c =
           (None, [RandInt 50 (screen_width m - 50) x, RandInt 50 (screen_height m - 50) y,
                   Log_skip x y])"
  using assms
  by (auto simp: move_mouse_and_click_def get_random_position_def split: sum.splits)

text \<open>
  C6 on a mover whose attribute \<open>avoid_regions\<close> was replaced by one rectangle covering
  the screen (with the constructor's regions no candidate is avoided, by
  \<open>candidate_never_avoided\<close>): the candidate (960, 540) is skipped.
\<close>

theorem C6_avoided_cycle_skipped_witness:
  "fst (get_random_position (started_mover\<lparr>avoid_regions := [(0, 0, 1920, 1080)]\<rparr>) 910 490)
     = Inr (960, 540)
   \<and> is_position_in_avoid_region (started_mover\<lparr>avoid_regions := [(0, 0, 1920, 1080)]\<rparr>) 960 540
   \<and> move_mouse_and_click (started_mover\<lparr>avoid_regions := [(0, 0, 1920, 1080)]\<rparr>)
       (quiet_cycle 910 490)
     = (None, [RandInt 50 1870 960, RandInt 50 1030 540, Log_skip 960 540])"
  using C6_avoided_cycle_skipped [of "started_mover\<lparr>avoid_regions := [(0, 0, 1920, 1080)]\<rparr>"
      "quiet_cycle 910 490" 960 540]
  by (simp add: started_mover_eq quiet_cycle_def get_random_position_def randint_def
      is_position_in_avoid_region_def)

lemma move_mouse_and_click_started:
  "move_mouse_and_click started_mover
     \<lparr>draw_x = 910, draw_y = 490, move_outcome = mo, click_outcome = co,
      stop_request = sr, thread_alive = ta, join_ended = je\<rparr> =
   (case mo of
      Some e \<Rightarrow> except_Exception e [RandInt 50 1870 960, RandInt 50 1030 540]
    | None \<Rightarrow>
        (case co of
           Some e \<Rightarrow>
             except_Exception e [RandInt 50 1870 960, RandInt 50 1030 540, MoveTo 960 540]
         | None \<Rightarrow>
             (None, [RandInt 50 1870 960, RandInt 50 1030 540, MoveTo 960 540, Click,
                     Log_moved 960 540])))"
  by (simp add: started_mover_eq move_mouse_and_click_def get_random_position_def randint_def
      is_position_in_avoid_region_def split: option.splits)

section \<open>Facts about the loop\<close>

text \<open>
  C2, as stated, fails: \<open>moveTo\<close> raises an \<open>OSError\<close>-like exception in the first
  cycle; \<open>move_mouse_and_click\<close> prints it and returns, the loop sleeps its fifty
  tenths of a second and runs the second cycle, which moves and clicks. At the end of
  the input the flag is still set and the loop has not returned.
\<close>

theorem C2_loop_goes_on_counterexample:
  "mouse_mover_loop started_mover 1
     [(quiet_cycle 910 490)\<lparr>move_outcome := Some (OtherException ''device error'')\<rparr>,
      quiet_cycle 910 490] =
   (Still_running, started_mover,
    [Log_started, RandInt 50 1870 960, RandInt 50 1030 540,
     Log_error (OtherException ''device error'')] @ replicate 50 Sleep @
    [RandInt 50 1870 960, RandInt 50 1030 540, MoveTo 960 540, Click, Log_moved 960 540] @
    replicate 50 Sleep)
   \<and> running started_mover"
  by (simp add: mouse_mover_loop_def prepend_def quiet_cycle_def move_mouse_and_click_started
      except_Exception_def)
     (simp add: started_mover_eq)

text \<open>
  C2, amended. When \<open>moveTo\<close> or \<open>click\<close> raises an exception other than the failsafe
  and the keyboard interrupt in a cycle of a running mover, the exception is printed
  inside the cycle, the mover is unchanged, and (nobody asking to stop during the wait)
  the loop sleeps fifty times and goes on with the next cycle.
\<close>

theorem C2_exception_logged_loop_continues:
  assumes "running m"
    and "fst (get_random_position m (draw_x c) (draw_y c)) = Inr (x, y)"
    and "\<not> is_position_in_avoid_region m x y"
    and "move_outcome c = Some e \<or> (move_outcome c = None \<and> click_outcome c = Some e)"
    and "e \<noteq> FailSafeException" and "e \<noteq> KeyboardInterrupt"
    and "stop_request c = None"
  shows "mouse_mover_loop m me (c # cs) =
           prepend ([Log_started] @ snd (get_random_position m (draw_x c) (draw_y c)) @
                    (if move_outcome c = None then [MoveTo x y] else []) @
                    [Log_error e] @ replicate 50 Sleep)
             (mouse_mover_while m me cs)"
proof -
  from assms(6) have exc: "is_Exception e" by (cases e) simp_all
  obtain evs where g: "get_random_position m (draw_x c) (draw_y c) = (Inr (x, y), evs)"
    using assms(2) by (cases "get_random_position m (draw_x c) (draw_y c)") simp
  have "move_mouse_and_click m c =
          (None, evs @ (if move_outcome c = None then [MoveTo x y] else []) @ [Log_error e])"
    using assms(3,4) exc g by (auto simp: move_mouse_and_click_def except_Exception_def)
  then show ?thesis
    using assms(1,7) g by (simp add: mouse_mover_loop_def prepend_def)
qed

text \<open>
  C2, amended, on two cycles: \<open>click\<close> raises in the first, and in the second another
  thread clears the flag after two sleeps. The second cycle runs in full before the
  loop returns.
\<close>

theorem C2_exception_logged_loop_continues_witness:
  "mouse_mover_loop started_mover 1
     [(quiet_cycle 910 490)\<lparr>click_outcome := Some (OtherException ''device error'')\<rparr>,
      (quiet_cycle 910 490)\<lparr>stop_request := Some 2\<rparr>] =
   (Returned, started_mover\<lparr>running := False\<rparr>,
    [Log_started, RandInt 50 1870 960, RandInt 50 1030 540, MoveTo 960 540,
     Log_error (OtherException ''device error'')] @ replicate 50 Sleep @
    [RandInt 50 1870 960, RandInt 50 1030 540, MoveTo 960 540, Click, Log_moved 960 540,
     Sleep, Sleep])"
  using C2_exception_logged_loop_continues [of started_mover
      "(quiet_cycle 910 490)\<lparr>click_outcome := Some (OtherException ''device error'')\<rparr>"
      960 540 "OtherException ''device error''" 1
      "[(quiet_cycle 910 490)\<lparr>stop_request := Some 2\<rparr>]"]
  by (simp add: started_mover_eq quiet_cycle_def get_random_position_def randint_def
      is_position_in_avoid_region_def prepend_def move_mouse_and_click_def numeral_2_eq_2)

text \<open>
  C3 on the code: \<open>moveTo\<close> raises \<open>FailSafeException\<close> in the first cycle. The clause
  \<open>except Exception\<close> of \<open>move_mouse_and_click\<close> catches it, so the clause
  \<open>except pyautogui.FailSafeException\<close> of the loop never sees it: the flag stays set,
  the loop does not return, and the second cycle moves and clicks.
\<close>

theorem C3_failsafe_swallowed:
  "mouse_mover_loop started_mover 1
     [(quiet_cycle 910 490)\<lparr>move_outcome := Some FailSafeException\<rparr>,
      quiet_cycle 910 490] =
   (Still_running, started_mover,
    [Log_started, RandInt 50 1870 960, RandInt 50 1030 540,
     Log_error FailSafeException] @ replicate 50 Sleep @
    [RandInt 50 1870 960, RandInt 50 1030 540, MoveTo 960 540, Click, Log_moved 960 540] @
    replicate 50 Sleep)
   \<and> running started_mover"
  by (simp add: mouse_mover_loop_def prepend_def quiet_cycle_def move_mouse_and_click_started
      except_Exception_def)
     (simp add: started_mover_eq)

section \<open>Facts about start and stop\<close>

text \<open>
  C7. \<open>start()\<close> on a running mover changes nothing: the mover, with its flag and its
  thread, is returned as it was, and the only event is the line saying that it is
  already running; no thread is spawned.
\<close>

theorem C7_start_idempotent:
  "running m \<Longrightarrow> start m tid = (m, [Log_already_running])"
  by (simp add: start_def)

text \<open>C7 on the started 1920x1080 mover: a second \<open>start()\<close> leaves thread 1 in place.\<close>

theorem C7_start_idempotent_witness:
  "running started_mover \<and> thread started_mover = Some 1 \<and>
   start started_mover 2 = (started_mover, [Log_already_running])"
  using C7_start_idempotent [of started_mover 2]
  by (simp add: started_mover_eq)

text \<open>
  C8. \<open>start()\<close> on a stopped mover, then \<open>stop()\<close> called by a thread other than the
  one spawned: \<open>stop\<close> returns normally with the flag cleared; it joins the thread only
  if it is alive, with a timeout of one second, and its result is the same whether or
  not the thread ended within the timeout.
\<close>

theorem C8_start_then_stop:
  assumes "\<not> running m" and "caller \<noteq> tid"
  shows "stop (fst (start m tid)) caller alive ended =
           (None, m\<lparr>running := False, thread := Some tid\<rparr>,
            (if alive then [Join tid 1 ended] else []) @ [Log_stopped])"
  using assms by (simp add: start_def stop_def)

text \<open>
  C8 on the 1920x1080 mover, thread 0 calling: the spawned thread 1 is alive and does
  not end within the timeout, and \<open>stop\<close> returns with the flag cleared.
\<close>

theorem C8_start_then_stop_witness:
  "\<not> running (fst (RandomMouseMover_init 1920 1080)) \<and> (0::nat) \<noteq> 1 \<and>
   stop (fst (start (fst (RandomMouseMover_init 1920 1080)) 1)) 0 True False =
     (None, started_mover\<lparr>running := False\<rparr>, [Join 1 1 False, Log_stopped])"
  using C8_start_then_stop [of "fst (RandomMouseMover_init 1920 1080)" 0 1 True False]
  by (simp add: started_mover_eq init_fields RandomMouseMover_init_def define_avoid_regions_def)

end
